theory Spec2Isabelle
  imports Main "HOL-Library.Sublist"
begin

section \<open>The specification-to-scaffold compiler of \<^verbatim>\<open>turtle-cli/cnl_to_mcp_generator.ts\<close>\<close>

text \<open>
  The class \<^verbatim>\<open>CNLToMCPGenerator\<close> reads a specification text, extracts tool
  descriptors and server metadata with regular expressions, and writes a package
  manifest, a server entry point, one stub per tool and a build configuration.

  Conventions of the embedding:
  \<^item> a JavaScript string is a \<^typ>\<open>string\<close> (a list of 8-bit characters); the model is
    exact on ASCII text. The class \<^verbatim>\<open>\s\<close> is taken on its ASCII members and
    \<^verbatim>\<open>toUpperCase\<close> on the letters a-z;
  \<^item> a regular expression literal of the source is a list of \<open>item\<close>s, run by a
    backtracking matcher that follows the priority order of the JavaScript engine
    (greedy and lazy quantifiers, capture groups, positive lookahead);
  \<^item> a path is the list of its components, so that \<^verbatim>\<open>path.join\<close> appends;
  \<^item> the file system is a map from paths to nodes, threaded through the writes; a
    failing file-system call is a value \<open>Inl e\<close>;
  \<^item> the messages written with \<^verbatim>\<open>console.log\<close> are not modelled.
\<close>

subsection \<open>Regular expressions\<close>

datatype cclass = Space | Word | AnyChar | NotQuote

datatype quant = Greedy | Lazy

datatype la = LaLit string | LaEnd

datatype item =
    Lit string
  | One cclass
  | Star quant cclass
  | Open nat
  | Close nat
  | Look "la list"

text \<open>\<^verbatim>\<open>\s\<close>, \<^verbatim>\<open>\w\<close>, \<^verbatim>\<open>.\<close> under the flag \<^verbatim>\<open>s\<close>, and \<^verbatim>\<open>[^"]\<close>.\<close>

definition is_space :: "char \<Rightarrow> bool" where
  "is_space c = (let n = (of_char c :: nat) in (9 \<le> n \<and> n \<le> 13) \<or> n = 32)"

definition is_word :: "char \<Rightarrow> bool" where
  "is_word c = (let n = (of_char c :: nat) in
     (48 \<le> n \<and> n \<le> 57) \<or> (65 \<le> n \<and> n \<le> 90) \<or> n = 95 \<or> (97 \<le> n \<and> n \<le> 122))"

fun in_class :: "cclass \<Rightarrow> char \<Rightarrow> bool" where
  "in_class Space c = is_space c"
| "in_class Word c = is_word c"
| "in_class AnyChar c = True"
| "in_class NotQuote c = (c \<noteq> CHR 0x22)"

text \<open>
  The state of one match attempt: the text consumed so far (reversed), the start
  offsets of the groups that are open, and the groups that are closed.
\<close>

record mstate =
  consumed :: string
  opened :: "(nat \<times> nat) list"
  groups :: "(nat \<times> string) list"

definition init_mstate :: mstate where
  "init_mstate = \<lparr>consumed = [], opened = [], groups = []\<rparr>"

definition eat :: "string \<Rightarrow> mstate \<Rightarrow> mstate" where
  "eat l st = st\<lparr>consumed := rev l @ consumed st\<rparr>"

definition open_group :: "nat \<Rightarrow> mstate \<Rightarrow> mstate" where
  "open_group i st = st\<lparr>opened := (i, length (consumed st)) # opened st\<rparr>"

definition close_group :: "nat \<Rightarrow> mstate \<Rightarrow> mstate" where
  "close_group i st =
     (case map_of (opened st) i of
        None \<Rightarrow> st
      | Some start \<Rightarrow>
          st\<lparr>groups := (i, rev (take (length (consumed st) - start) (consumed st))) # groups st\<rparr>)"

fun la_ok :: "string \<Rightarrow> la \<Rightarrow> bool" where
  "la_ok s (LaLit l) = prefix l s"
| "la_ok s LaEnd = (s = [])"

text \<open>
  \<open>bt items s st\<close> matches the sequence \<open>items\<close> at the start of \<open>s\<close> and returns the
  unread rest of the input with the final state, or \<open>None\<close>. A greedy quantifier
  first tries one more character and only then the rest of the expression; a lazy one
  first tries the rest of the expression.
\<close>

fun bt :: "item list \<Rightarrow> string \<Rightarrow> mstate \<Rightarrow> (string \<times> mstate) option" where
  "bt [] s st = Some (s, st)"
| "bt (Lit l # k) s st =
     (if prefix l s then bt k (drop (length l) s) (eat l st) else None)"
| "bt (One c # k) s st =
     (case s of
        [] \<Rightarrow> None
      | x # xs \<Rightarrow> if in_class c x then bt k xs (eat [x] st) else None)"
| "bt (Star Greedy c # k) s st =
     (case s of
        [] \<Rightarrow> bt k s st
      | x # xs \<Rightarrow>
          if in_class c x then
            (case bt (Star Greedy c # k) xs (eat [x] st) of
               Some r \<Rightarrow> Some r
             | None \<Rightarrow> bt k s st)
          else bt k s st)"
| "bt (Star Lazy c # k) s st =
     (case bt k s st of
        Some r \<Rightarrow> Some r
      | None \<Rightarrow>
          (case s of
             [] \<Rightarrow> None
           | x # xs \<Rightarrow> if in_class c x then bt (Star Lazy c # k) xs (eat [x] st) else None))"
| "bt (Open i # k) s st = bt k s (open_group i st)"
| "bt (Close i # k) s st = bt k s (close_group i st)"
| "bt (Look alts # k) s st = (if list_ex (la_ok s) alts then bt k s st else None)"

text \<open>
  A match object: \<open>m_full\<close> is \<^verbatim>\<open>match[0]\<close>, \<open>m_group i\<close> is \<^verbatim>\<open>match[i]\<close>, and
  \<open>m_rest\<close> is the input after the match (the position \<^verbatim>\<open>lastIndex\<close>). None of the
  expressions of the source looks behind its start, so a search that continues on
  \<open>m_rest\<close> is a search from \<^verbatim>\<open>lastIndex\<close>.
\<close>

record rmatch =
  m_full :: string
  m_groups :: "(nat \<times> string) list"
  m_rest :: string

definition m_group :: "rmatch \<Rightarrow> nat \<Rightarrow> string" where
  "m_group m i = (case map_of (m_groups m) i of None \<Rightarrow> [] | Some g \<Rightarrow> g)"

text \<open>\<^verbatim>\<open>String.prototype.match\<close> without the flag \<^verbatim>\<open>g\<close>: the leftmost match.\<close>

fun re_match :: "item list \<Rightarrow> string \<Rightarrow> rmatch option" where
  "re_match re s =
     (case bt re s init_mstate of
        Some (rest, st) \<Rightarrow>
          Some \<lparr>m_full = rev (consumed st), m_groups = groups st, m_rest = rest\<rparr>
      | None \<Rightarrow> (case s of [] \<Rightarrow> None | x # xs \<Rightarrow> re_match re xs))"

lemma bt_length:
  "bt re s st = Some (rest, st') \<Longrightarrow>
     length rest + length (consumed st') = length s + length (consumed st)"
proof (induction re s st arbitrary: rest st' rule: bt.induct)
  case (2 l k s st)
  then show ?case
    by (auto simp: eat_def prefix_def split: if_splits)
next
  case (3 c k s st)
  then show ?case
    by (auto simp: eat_def split: list.splits if_splits)
next
  case (4 c k s st)
  show ?case
  proof (cases s)
    case Nil
    with 4 show ?thesis by simp
  next
    case (Cons x xs)
    show ?thesis
    proof (cases "in_class c x")
      case False
      with 4 Cons show ?thesis by simp
    next
      case True
      show ?thesis
      proof (cases "bt (Star Greedy c # k) xs (eat [x] st)")
        case None
        with 4 Cons True show ?thesis by simp
      next
        case (Some r)
        with "4.prems" Cons True have "bt (Star Greedy c # k) xs (eat [x] st) = Some (rest, st')"
          by simp
        from "4.IH"(2) [OF Cons True this] Cons show ?thesis
          by (simp add: eat_def)
      qed
    qed
  qed
next
  case (5 c k s st)
  show ?case
  proof (cases "bt k s st")
    case (Some r)
    with 5 show ?thesis by simp
  next
    case None
    with "5.prems" obtain x xs where s: "s = x # xs" and c: "in_class c x"
      and r: "bt (Star Lazy c # k) xs (eat [x] st) = Some (rest, st')"
      by (auto split: list.splits if_splits)
    from "5.IH"(2) [OF None s c r] s show ?thesis
      by (simp add: eat_def)
  qed
next
  case (6 i k s st)
  then show ?case by (simp add: open_group_def)
next
  case (7 i k s st)
  then show ?case by (simp add: close_group_def split: option.splits)
next
  case (8 alts k s st)
  then show ?case by (simp split: if_splits)
qed simp

lemma re_match_length:
  "re_match re s = Some m \<Longrightarrow> length (m_rest m) + length (m_full m) \<le> length s"
proof (induction s)
  case Nil
  then show ?case
    by (auto simp: init_mstate_def split: option.splits dest!: bt_length)
next
  case (Cons x xs)
  show ?case
  proof (cases "bt re (x # xs) init_mstate")
    case None
    with Cons show ?thesis by simp
  next
    case (Some r)
    obtain rest st where r: "r = (rest, st)" by (cases r)
    from Some r have "length rest + length (consumed st) = length (x # xs)"
      by (auto simp: init_mstate_def dest!: bt_length)
    with Cons.prems Some r show ?thesis by auto
  qed
qed

text \<open>
  \<^verbatim>\<open>String.prototype.matchAll\<close> with the flag \<^verbatim>\<open>g\<close>: the successive matches, each
  search starting where the previous match ended, and one character further after an
  empty match.
\<close>

function matchAll :: "item list \<Rightarrow> string \<Rightarrow> rmatch list" where
  "matchAll re s =
     (case re_match re s of
        None \<Rightarrow> []
      | Some m \<Rightarrow>
          m # (if m_full m = []
               then (case m_rest m of [] \<Rightarrow> [] | x # xs \<Rightarrow> matchAll re xs)
               else matchAll re (m_rest m)))"
  by pat_completeness auto
termination
proof (relation "measure (\<lambda>(re, s). length s)")
  show "wf (measure (\<lambda>(re, s). length s))" by simp
next
  fix re s m x xs
  assume "re_match re s = Some m" and "m_rest m = x # xs"
  then show "((re, xs), (re, s)) \<in> measure (\<lambda>(re, s). length s)"
    using re_match_length [of re s m] by simp
next
  fix re s m
  assume "re_match re s = Some m" and "m_full m \<noteq> []"
  then show "((re, m_rest m), (re, s)) \<in> measure (\<lambda>(re, s). length s)"
    using re_match_length [of re s m] by (cases "m_full m") auto
qed

declare matchAll.simps [simp del]

text \<open>
  \<^verbatim>\<open>String.prototype.match\<close> with the flag \<^verbatim>\<open>g\<close>: the array of the matched
  substrings, or \<^verbatim>\<open>null\<close> when there is none.
\<close>

definition match_g :: "item list \<Rightarrow> string \<Rightarrow> string list option" where
  "match_g re s = (case matchAll re s of [] \<Rightarrow> None | ms \<Rightarrow> Some (map m_full ms))"

subsection \<open>The data model\<close>

record ToolParameter =
  p_name :: string
  p_type :: string
  p_required :: bool
  p_description :: string

record ToolReturn =
  r_name :: string
  r_type :: string
  r_description :: string

record ToolSpec =
  t_name :: string
  t_description :: string
  t_parameters :: "ToolParameter list"
  t_returns :: "ToolReturn list"
  t_implementationPattern :: string

record MCPServerConfig =
  c_name :: string
  c_version :: string
  c_transport :: string
  c_capabilities :: "string list"
  c_tools :: "ToolSpec list"

text \<open>
  The fields \<^verbatim>\<open>type\<close> are declared as a union of four string literals, but the
  parser stores the matched word through \<^verbatim>\<open>as any\<close>; they are strings here.
\<close>

subsection \<open>The file system\<close>

type_synonym path = "string list"

datatype node = File string | Dir

type_synonym fs = "path \<Rightarrow> node option"

datatype error = ENOENT | ENOTDIR | EISDIR

text \<open>The empty path is the directory the relative paths start from; it always exists.\<close>

definition lookup :: "fs \<Rightarrow> path \<Rightarrow> node option" where
  "lookup f p = (if p = [] then Some Dir else f p)"

definition path_join :: "path \<Rightarrow> string list \<Rightarrow> path" where
  "path_join d segs = d @ segs"

definition existsSync :: "fs \<Rightarrow> path \<Rightarrow> bool" where
  "existsSync f p = (lookup f p \<noteq> None)"

definition readFileSync :: "fs \<Rightarrow> path \<Rightarrow> error + string" where
  "readFileSync f p =
     (case lookup f p of
        None \<Rightarrow> Inl ENOENT
      | Some Dir \<Rightarrow> Inl EISDIR
      | Some (File content) \<Rightarrow> Inr content)"

definition writeFileSync :: "fs \<Rightarrow> path \<Rightarrow> string \<Rightarrow> error + fs" where
  "writeFileSync f p content =
     (case lookup f (butlast p) of
        None \<Rightarrow> Inl ENOENT
      | Some (File x) \<Rightarrow> Inl ENOTDIR
      | Some Dir \<Rightarrow>
          (if lookup f p = Some Dir then Inl EISDIR else Inr (f(p \<mapsto> File content))))"

text \<open>
  \<^verbatim>\<open>fs.mkdirSync(p, { recursive: true })\<close>: every missing directory on the way to
  \<open>p\<close> is created; a file on the way makes the call fail.
\<close>

definition mkdirSync :: "fs \<Rightarrow> path \<Rightarrow> error + fs" where
  "mkdirSync f p =
     (if list_ex (\<lambda>q. case lookup f q of Some (File x) \<Rightarrow> True | _ \<Rightarrow> False) (prefixes p)
      then Inl ENOTDIR
      else Inr (\<lambda>q. if q \<noteq> [] \<and> prefix q p \<and> f q = None then Some Dir else f q))"

subsection \<open>The parser\<close>

definition QUOTE :: char where
  "QUOTE = CHR 0x22"

text \<open>\<^verbatim>\<open>/TOOL_SPECIFICATION\s+(\w+):(.*?)(?=TOOL_SPECIFICATION|MCP_SERVER_CONFIGURATION|$)/gs\<close>\<close>

definition TOOL_RE :: "item list" where
  "TOOL_RE =
     [Lit ''TOOL_SPECIFICATION'', One Space, Star Greedy Space,
      Open 1, One Word, Star Greedy Word, Close 1, Lit '':'',
      Open 2, Star Lazy AnyChar, Close 2,
      Look [LaLit ''TOOL_SPECIFICATION'', LaLit ''MCP_SERVER_CONFIGURATION'', LaEnd]]"

text \<open>\<^verbatim>\<open>/LABEL:\s*"([^"]+)"/\<close> for a label such as \<^verbatim>\<open>DESCRIPTION\<close> or \<^verbatim>\<open>NAME\<close>.\<close>

definition QUOTED_RE :: "string \<Rightarrow> item list" where
  "QUOTED_RE label =
     [Lit (label @ '':''), Star Greedy Space, Lit [QUOTE],
      Open 1, One NotQuote, Star Greedy NotQuote, Close 1, Lit [QUOTE]]"

text \<open>\<^verbatim>\<open>/PARAMETERS:(.*?)RETURNS:/s\<close> and \<^verbatim>\<open>/RETURNS:(.*?)IMPLEMENTATION_PATTERN:/s\<close>\<close>

definition PARAM_SECTION_RE :: "item list" where
  "PARAM_SECTION_RE =
     [Lit ''PARAMETERS:'', Open 1, Star Lazy AnyChar, Close 1, Lit ''RETURNS:'']"

definition RETURN_SECTION_RE :: "item list" where
  "RETURN_SECTION_RE =
     [Lit ''RETURNS:'', Open 1, Star Lazy AnyChar, Close 1, Lit ''IMPLEMENTATION_PATTERN:'']"

text \<open>\<^verbatim>\<open>/- (\w+): (\w+) \((\w+)\) "([^"]+)"/\<close>\<close>

definition PARAM_LINE_RE :: "item list" where
  "PARAM_LINE_RE =
     [Lit ''- '', Open 1, One Word, Star Greedy Word, Close 1, Lit '': '',
      Open 2, One Word, Star Greedy Word, Close 2, Lit '' ('',
      Open 3, One Word, Star Greedy Word, Close 3, Lit ('')'' @ [CHR 0x20, QUOTE]),
      Open 4, One NotQuote, Star Greedy NotQuote, Close 4, Lit [QUOTE]]"

text \<open>\<^verbatim>\<open>/- (\w+): (\w+) "([^"]+)"/\<close>\<close>

definition RETURN_LINE_RE :: "item list" where
  "RETURN_LINE_RE =
     [Lit ''- '', Open 1, One Word, Star Greedy Word, Close 1, Lit '': '',
      Open 2, One Word, Star Greedy Word, Close 2, Lit [CHR 0x20, QUOTE],
      Open 3, One NotQuote, Star Greedy NotQuote, Close 3, Lit [QUOTE]]"

text \<open>\<^verbatim>\<open>/MCP_SERVER_CONFIGURATION:(.*?)(?=GENERATION_RULES|$)/s\<close>\<close>

definition CONFIG_RE :: "item list" where
  "CONFIG_RE =
     [Lit ''MCP_SERVER_CONFIGURATION:'', Open 1, Star Lazy AnyChar, Close 1,
      Look [LaLit ''GENERATION_RULES'', LaEnd]]"

text \<open>
  The loop of \<^verbatim>\<open>parseParameters\<close> over the matched lines; \<open>parameters\<close> is the
  array the loop pushes to.
\<close>

fun paramLoop :: "string list \<Rightarrow> ToolParameter list \<Rightarrow> ToolParameter list" where
  "paramLoop [] parameters = parameters"
| "paramLoop (line # lines) parameters =
     (case re_match PARAM_LINE_RE line of
        None \<Rightarrow> paramLoop lines parameters
      | Some m \<Rightarrow>
          paramLoop lines
            (parameters @
             [\<lparr>p_name = m_group m 1,
               p_type = m_group m 2,
               p_required = (m_group m 3 = ''required''),
               p_description = m_group m 4\<rparr>]))"

definition parseParameters :: "string \<Rightarrow> ToolParameter list" where
  "parseParameters toolContent =
     (case re_match PARAM_SECTION_RE toolContent of
        None \<Rightarrow> []
      | Some paramSection \<Rightarrow>
          (case match_g PARAM_LINE_RE (m_group paramSection 1) of
             None \<Rightarrow> []
           | Some paramLines \<Rightarrow> paramLoop paramLines []))"

fun returnLoop :: "string list \<Rightarrow> ToolReturn list \<Rightarrow> ToolReturn list" where
  "returnLoop [] returns = returns"
| "returnLoop (line # lines) returns =
     (case re_match RETURN_LINE_RE line of
        None \<Rightarrow> returnLoop lines returns
      | Some m \<Rightarrow>
          returnLoop lines
            (returns @
             [\<lparr>r_name = m_group m 1,
               r_type = m_group m 2,
               r_description = m_group m 3\<rparr>]))"

definition parseReturns :: "string \<Rightarrow> ToolReturn list" where
  "parseReturns toolContent =
     (case re_match RETURN_SECTION_RE toolContent of
        None \<Rightarrow> []
      | Some returnSection \<Rightarrow>
          (case match_g RETURN_LINE_RE (m_group returnSection 1) of
             None \<Rightarrow> []
           | Some returnLines \<Rightarrow> returnLoop returnLines []))"

text \<open>\<^verbatim>\<open>m ? m[1] : dflt\<close> for the result \<open>m\<close> of a match.\<close>

definition group1_or :: "rmatch option \<Rightarrow> string \<Rightarrow> string" where
  "group1_or m dflt = (case m of None \<Rightarrow> dflt | Some x \<Rightarrow> m_group x 1)"

text \<open>The body of the loop of \<^verbatim>\<open>parseCNLFile\<close> over the tool matches.\<close>

definition toolOfMatch :: "rmatch \<Rightarrow> ToolSpec" where
  "toolOfMatch m =
     (let toolName = m_group m 1;
          toolContent = m_group m 2;
          descMatch = re_match (QUOTED_RE ''DESCRIPTION'') toolContent;
          description = group1_or descMatch [];
          parameters = parseParameters toolContent;
          returns = parseReturns toolContent;
          implMatch = re_match (QUOTED_RE ''IMPLEMENTATION_PATTERN'') toolContent;
          implementationPattern = group1_or implMatch []
      in \<lparr>t_name = toolName,
           t_description = description,
           t_parameters = parameters,
           t_returns = returns,
           t_implementationPattern = implementationPattern\<rparr>)"

fun toolLoop :: "rmatch list \<Rightarrow> ToolSpec list \<Rightarrow> ToolSpec list" where
  "toolLoop [] toolSpecs = toolSpecs"
| "toolLoop (m # ms) toolSpecs = toolLoop ms (toolSpecs @ [toolOfMatch m])"

text \<open>The text of the server configuration block: \<^verbatim>\<open>configMatch ? configMatch[1] : ''\<close>.\<close>

definition configContent :: "string \<Rightarrow> string" where
  "configContent content = group1_or (re_match CONFIG_RE content) []"

text \<open>Lines 46 to 85 of the source: \<^verbatim>\<open>parseCNLFile\<close> after the file is read.\<close>

definition parseContent :: "string \<Rightarrow> MCPServerConfig" where
  "parseContent content =
     (let toolSpecs = toolLoop (matchAll TOOL_RE content) [];
          nameMatch = re_match (QUOTED_RE ''NAME'') (configContent content);
          versionMatch = re_match (QUOTED_RE ''VERSION'') (configContent content);
          transportMatch = re_match (QUOTED_RE ''TRANSPORT'') (configContent content)
      in \<lparr>c_name = group1_or nameMatch ''generated-mcp-server'',
           c_version = group1_or versionMatch ''0.1.0'',
           c_transport = group1_or transportMatch ''stdio'',
           c_capabilities = [''tools'', ''resources''],
           c_tools = toolSpecs\<rparr>)"

definition parseCNLFile :: "fs \<Rightarrow> path \<Rightarrow> error + MCPServerConfig" where
  "parseCNLFile f filePath =
     (case readFileSync f filePath of
        Inl e \<Rightarrow> Inl e
      | Inr content \<Rightarrow> Inr (parseContent content))"

subsection \<open>String operations of the generator\<close>

definition SQ :: char where
  "SQ = CHR 0x27"

text \<open>\<^verbatim>\<open>Array.prototype.join\<close>\<close>

fun join :: "string \<Rightarrow> string list \<Rightarrow> string" where
  "join sep [] = []"
| "join sep [x] = x"
| "join sep (x # y # ys) = x @ sep @ join sep (y # ys)"

text \<open>\<^verbatim>\<open>String.prototype.trim\<close>\<close>

definition trim :: "string \<Rightarrow> string" where
  "trim s = rev (dropWhile is_space (rev (dropWhile is_space s)))"

text \<open>\<^verbatim>\<open>.replace(/-/g, '_')\<close>\<close>

definition replace_dash :: "string \<Rightarrow> string" where
  "replace_dash s = map (\<lambda>c. if c = CHR ''-'' then CHR ''_'' else c) s"

definition upper_char :: "char \<Rightarrow> char" where
  "upper_char c =
     (let n = (of_char c :: nat) in if 97 \<le> n \<and> n \<le> 122 then char_of (n - 32) else c)"

definition toUpperCase :: "string \<Rightarrow> string" where
  "toUpperCase s = map upper_char s"

text \<open>\<^verbatim>\<open>s.charAt(0).toUpperCase() + s.slice(1)\<close>\<close>

definition capitalize :: "string \<Rightarrow> string" where
  "capitalize s = toUpperCase (take 1 s) @ drop 1 s"

subsection \<open>\<^verbatim>\<open>JSON.stringify(value, null, 2)\<close>\<close>

datatype json = JString string | JBool bool | JArray "json list" | JObject "(string \<times> json) list"

definition hex_digit :: "nat \<Rightarrow> char" where
  "hex_digit n = ''0123456789abcdef'' ! (n mod 16)"

definition escape_char :: "char \<Rightarrow> string" where
  "escape_char c =
     (let n = (of_char c :: nat) in
      if c = QUOTE then [CHR 0x5C, QUOTE]
      else if n = 92 then [CHR 0x5C, CHR 0x5C]
      else if n = 8 then [CHR 0x5C, CHR ''b'']
      else if n = 12 then [CHR 0x5C, CHR ''f'']
      else if n = 10 then [CHR 0x5C, CHR ''n'']
      else if n = 13 then [CHR 0x5C, CHR ''r'']
      else if n = 9 then [CHR 0x5C, CHR ''t'']
      else if n < 32 then [CHR 0x5C, CHR ''u'', CHR ''0'', CHR ''0'', hex_digit (n div 16), hex_digit n]
      else [c])"

definition quoteJSON :: "string \<Rightarrow> string" where
  "quoteJSON s = [QUOTE] @ concat (map escape_char s) @ [QUOTE]"

fun stringify :: "nat \<Rightarrow> json \<Rightarrow> string" where
  "stringify ind (JString s) = quoteJSON s"
| "stringify ind (JBool b) = (if b then ''true'' else ''false'')"
| "stringify ind (JArray xs) =
     (if xs = [] then ''[]''
      else ''['' @ [CHR 0x0A] @
           join ('','' @ [CHR 0x0A])
             (map (\<lambda>x. replicate (ind + 2) CHR '' '' @ stringify (ind + 2) x) xs) @
           [CHR 0x0A] @ replicate ind CHR '' '' @ '']'')"
| "stringify ind (JObject kvs) =
     (if kvs = [] then ''{}''
      else ''{'' @ [CHR 0x0A] @
           join ('','' @ [CHR 0x0A])
             (map (\<lambda>kv. replicate (ind + 2) CHR '' '' @ quoteJSON (fst kv) @ '': '' @
                        stringify (ind + 2) (snd kv)) kvs) @
           [CHR 0x0A] @ replicate ind CHR '' '' @ ''}'')"

subsection \<open>The generator\<close>

definition packageJson :: "MCPServerConfig \<Rightarrow> json" where
  "packageJson config =
     JObject
       [(''name'', JString (c_name config)),
        (''version'', JString (c_version config)),
        (''description'', JString ''MCP server generated from CNL specification''),
        (''main'', JString ''dist/index.js''),
        (''type'', JString ''module''),
        (''scripts'', JObject
           [(''build'', JString ''tsc''),
            (''start'', JString ''node dist/index.js''),
            (''dev'', JString ''tsc --watch'')]),
        (''dependencies'', JObject
           [(''@modelcontextprotocol/sdk'', JString ''^0.4.0'')]),
        (''devDependencies'', JObject
           [(''@types/node'', JString ''^18.0.0''),
            (''typescript'', JString ''^5.0.0'')])]"

definition generatePackageJson :: "fs \<Rightarrow> MCPServerConfig \<Rightarrow> path \<Rightarrow> error + fs" where
  "generatePackageJson f config outputDir =
     writeFileSync f (path_join outputDir [''package.json'']) (stringify 0 (packageJson config))"

text \<open>The arrow functions inside the template of \<^verbatim>\<open>generateServerTypeScript\<close>.\<close>

definition importLine :: "ToolSpec \<Rightarrow> string" where
  \<open>importLine tool =
     ''import { '' @ t_name tool @ '' } from './tools/'' @ t_name tool @ ''.js';''\<close>

definition paramSchema :: "ToolParameter \<Rightarrow> string" where
  \<open>paramSchema param =
     ''                '' @
     p_name param @
     '': {\<newline>'' @
     ''                  type: "'' @
     p_type param @
     ''",\<newline>'' @
     ''                  description: "'' @
     p_description param @
     ''"\<newline>'' @
     ''                }''\<close>

definition quoted_name :: "ToolParameter \<Rightarrow> string" where
  \<open>quoted_name p = ''"'' @ p_name p @ ''"''\<close>

definition toolSchema :: "ToolSpec \<Rightarrow> string" where
  \<open>toolSchema tool =
     ''          {\<newline>'' @
     ''            name: "'' @
     t_name tool @
     ''",\<newline>'' @
     ''            description: "'' @
     t_description tool @
     ''",\<newline>'' @
     ''            inputSchema: {\<newline>'' @
     ''              type: "object",\<newline>'' @
     ''              properties: {\<newline>'' @
     join '',\<newline>'' (map paramSchema (t_parameters tool)) @
     ''\<newline>'' @
     ''              },\<newline>'' @
     ''              required: ['' @
     join '', '' (map quoted_name (filter p_required (t_parameters tool))) @
     '']\<newline>'' @
     ''            },\<newline>'' @
     ''          }''\<close>

definition caseLine :: "ToolSpec \<Rightarrow> string" where
  \<open>caseLine tool =
     ''        case "'' @
     t_name tool @
     ''":\<newline>'' @
     ''          return await '' @
     t_name tool @
     ''(request.params.arguments ?? {});''\<close>

text \<open>The template literal \<^verbatim>\<open>serverCode\<close>.\<close>

definition serverCode :: "MCPServerConfig \<Rightarrow> string" where
  \<open>serverCode config =
     ''\<newline>'' @
     ''import { Server } from '@modelcontextprotocol/sdk/server/index.js';\<newline>'' @
     ''import { StdioServerTransport } from '@modelcontextprotocol/sdk/server/stdio.js';\<newline>'' @
     ''import {\<newline>'' @
     ''  ListToolsRequestSchema,\<newline>'' @
     ''  CallToolRequestSchema,\<newline>'' @
     ''} from '@modelcontextprotocol/sdk/types.js';\<newline>'' @
     ''\<newline>'' @
     join ''\<newline>'' (map importLine (c_tools config)) @
     ''\<newline>'' @
     ''\<newline>'' @
     ''class '' @
     toUpperCase (replace_dash (c_name config)) @
     ''Server {\<newline>'' @
     ''  private server: Server;\<newline>'' @
     ''\<newline>'' @
     ''  constructor() {\<newline>'' @
     ''    this.server = new Server(\<newline>'' @
     ''      {\<newline>'' @
     ''        name: "'' @
     c_name config @
     ''",\<newline>'' @
     ''        version: "'' @
     c_version config @
     ''",\<newline>'' @
     ''      },\<newline>'' @
     ''      {\<newline>'' @
     ''        capabilities: {\<newline>'' @
     ''          tools: {},\<newline>'' @
     ''        },\<newline>'' @
     ''      }\<newline>'' @
     ''    );\<newline>'' @
     ''\<newline>'' @
     ''    this.setupToolHandlers();\<newline>'' @
     ''    this.setupErrorHandling();\<newline>'' @
     ''  }\<newline>'' @
     ''\<newline>'' @
     ''  private setupToolHandlers(): void {\<newline>'' @
     ''    this.server.setRequestHandler(ListToolsRequestSchema, async () => {\<newline>'' @
     ''      return {\<newline>'' @
     ''        tools: [\<newline>'' @
     join '',\<newline>'' (map toolSchema (c_tools config)) @
     ''\<newline>'' @
     ''        ],\<newline>'' @
     ''      };\<newline>'' @
     ''    });\<newline>'' @
     ''\<newline>'' @
     ''    this.server.setRequestHandler(CallToolRequestSchema, async (request) => {\<newline>'' @
     ''      switch (request.params.name) {\<newline>'' @
     join ''\<newline>'' (map caseLine (c_tools config)) @
     ''\<newline>'' @
     ''        default:\<newline>'' @
     ''          throw new Error(`Unknown tool: ${request.params.name}`);\<newline>'' @
     ''      }\<newline>'' @
     ''    });\<newline>'' @
     ''  }\<newline>'' @
     ''\<newline>'' @
     ''  private setupErrorHandling(): void {\<newline>'' @
     ''    this.server.onerror = (error) => {\<newline>'' @
     ''      console.error('[MCP Error]', error);\<newline>'' @
     ''    };\<newline>'' @
     ''  }\<newline>'' @
     ''\<newline>'' @
     ''  async run(): Promise<void> {\<newline>'' @
     ''    const transport = new StdioServerTransport();\<newline>'' @
     ''    await this.server.connect(transport);\<newline>'' @
     ''    console.error('' @
     [SQ] @
     c_name config @
     '' MCP server running on stdio');\<newline>'' @
     ''  }\<newline>'' @
     ''}\<newline>'' @
     ''\<newline>'' @
     ''const server = new '' @
     toUpperCase (replace_dash (c_name config)) @
     ''Server();\<newline>'' @
     ''server.run().catch(console.error);\<newline>''\<close>

text \<open>\<^verbatim>\<open>if (!fs.existsSync(d)) { fs.mkdirSync(d, { recursive: true }); }\<close>\<close>

definition ensureDir :: "fs \<Rightarrow> path \<Rightarrow> error + fs" where
  "ensureDir f d = (if \<not> existsSync f d then mkdirSync f d else Inr f)"

definition generateServerTypeScript :: "fs \<Rightarrow> MCPServerConfig \<Rightarrow> path \<Rightarrow> error + fs" where
  "generateServerTypeScript f config outputDir =
     (let srcDir = path_join outputDir [''src''] in
      case ensureDir f srcDir of
        Inl e \<Rightarrow> Inl e
      | Inr f1 \<Rightarrow> writeFileSync f1 (path_join srcDir [''index.ts'']) (trim (serverCode config)))"

text \<open>The arrow functions inside the template of \<^verbatim>\<open>generateToolImplementations\<close>.\<close>

definition argField :: "ToolParameter \<Rightarrow> string" where
  \<open>argField param =
     ''  '' @ p_name param @ (if p_required param then [] else ''?'') @ '': '' @ p_type param @ '';''\<close>

definition resultField :: "ToolReturn \<Rightarrow> string" where
  \<open>resultField ret = ''  '' @ r_name ret @ '': '' @ r_type ret @ '';''\<close>

definition placeholderLine :: "ToolReturn \<Rightarrow> string" where
  \<open>placeholderLine ret =
     (if r_type ret = ''string'' then ''      '' @ r_name ret @ '': "placeholder_'' @ r_name ret @ ''"''
      else if r_type ret = ''number'' then ''      '' @ r_name ret @ '': 0''
      else if r_type ret = ''boolean'' then ''      '' @ r_name ret @ '': false''
      else if r_type ret = ''array'' then ''      '' @ r_name ret @ '': []''
      else ''      '' @ r_name ret @ '': null'')\<close>

text \<open>The template literal \<^verbatim>\<open>toolCode\<close>.\<close>

definition toolCode :: "ToolSpec \<Rightarrow> string" where
  \<open>toolCode tool =
     ''\<newline>'' @
     ''/**\<newline>'' @
     '' * '' @
     t_name tool @
     '' - '' @
     t_description tool @
     ''\<newline>'' @
     '' * Implementation Pattern: '' @
     t_implementationPattern tool @
     ''\<newline>'' @
     '' */\<newline>'' @
     ''\<newline>'' @
     ''interface '' @
     capitalize (t_name tool) @
     ''Args {\<newline>'' @
     join ''\<newline>'' (map argField (t_parameters tool)) @
     ''\<newline>'' @
     ''}\<newline>'' @
     ''\<newline>'' @
     ''interface '' @
     capitalize (t_name tool) @
     ''Result {\<newline>'' @
     join ''\<newline>'' (map resultField (t_returns tool)) @
     ''\<newline>'' @
     ''}\<newline>'' @
     ''\<newline>'' @
     ''export async function '' @
     t_name tool @
     ''(args: '' @
     capitalize (t_name tool) @
     ''Args): Promise<{ content: Array<{ type: 'text'; text: string }> }> {\<newline>'' @
     ''  try {\<newline>'' @
     ''    // TODO: Implement '' @
     t_implementationPattern tool @
     ''\<newline>'' @
     ''    console.error(`['' @
     t_name tool @
     ''] Called with args:, JSON.stringify(args, null, 2)`);\<newline>'' @
     ''    \<newline>'' @
     ''    // Placeholder implementation\<newline>'' @
     ''    const result: '' @
     capitalize (t_name tool) @
     ''Result = {\<newline>'' @
     join '',\<newline>'' (map placeholderLine (t_returns tool)) @
     ''\<newline>'' @
     ''    };\<newline>'' @
     ''    \<newline>'' @
     ''    return {\<newline>'' @
     ''      content: [\<newline>'' @
     ''        {\<newline>'' @
     ''          type: 'text',\<newline>'' @
     ''          text: JSON.stringify(result, null, 2)\<newline>'' @
     ''        }\<newline>'' @
     ''      ]\<newline>'' @
     ''    };\<newline>'' @
     ''  } catch (error) {\<newline>'' @
     ''    return {\<newline>'' @
     ''      content: [\<newline>'' @
     ''        {\<newline>'' @
     ''          type: 'text',\<newline>'' @
     ''          text: `Error in '' @
     t_name tool @
     '': ${error}`\<newline>'' @
     ''        }\<newline>'' @
     ''      ]\<newline>'' @
     ''    };\<newline>'' @
     ''  }\<newline>'' @
     ''}\<newline>''\<close>

text \<open>The loop of \<^verbatim>\<open>generateToolImplementations\<close> over \<^verbatim>\<open>config.tools\<close>.\<close>

fun writeTools :: "fs \<Rightarrow> path \<Rightarrow> ToolSpec list \<Rightarrow> error + fs" where
  "writeTools f toolsDir [] = Inr f"
| "writeTools f toolsDir (tool # rest) =
     (case writeFileSync f (path_join toolsDir [t_name tool @ ''.ts'']) (trim (toolCode tool)) of
        Inl e \<Rightarrow> Inl e
      | Inr f1 \<Rightarrow> writeTools f1 toolsDir rest)"

definition generateToolImplementations :: "fs \<Rightarrow> MCPServerConfig \<Rightarrow> path \<Rightarrow> error + fs" where
  "generateToolImplementations f config outputDir =
     (let toolsDir = path_join outputDir [''src'', ''tools''] in
      case ensureDir f toolsDir of
        Inl e \<Rightarrow> Inl e
      | Inr f1 \<Rightarrow> writeTools f1 toolsDir (c_tools config))"

definition generateMCPServer :: "fs \<Rightarrow> MCPServerConfig \<Rightarrow> path \<Rightarrow> error + fs" where
  "generateMCPServer f config outputDir =
     (case generatePackageJson f config outputDir of
        Inl e \<Rightarrow> Inl e
      | Inr f1 \<Rightarrow>
          (case generateServerTypeScript f1 config outputDir of
             Inl e \<Rightarrow> Inl e
           | Inr f2 \<Rightarrow> generateToolImplementations f2 config outputDir))"

definition tsConfig :: json where
  "tsConfig =
     JObject
       [(''compilerOptions'', JObject
           [(''target'', JString ''ES2022''),
            (''module'', JString ''ESNext''),
            (''moduleResolution'', JString ''Node''),
            (''outDir'', JString ''./dist''),
            (''rootDir'', JString ''./src''),
            (''strict'', JBool True),
            (''esModuleInterop'', JBool True),
            (''skipLibCheck'', JBool True),
            (''forceConsistentCasingInFileNames'', JBool True),
            (''declaration'', JBool True),
            (''declarationMap'', JBool True),
            (''sourceMap'', JBool True)]),
        (''include'', JArray [JString ''src/**/*'']),
        (''exclude'', JArray [JString ''node_modules'', JString ''dist''])]"

definition generateTSConfig :: "fs \<Rightarrow> path \<Rightarrow> error + fs" where
  "generateTSConfig f outputDir =
     writeFileSync f (path_join outputDir [''tsconfig.json'']) (stringify 0 tsConfig)"

text \<open>
  The command-line interface (the \<^verbatim>\<open>try\<close> block at the end of the source): parse,
  create the output directory, generate the server and then the build configuration.
  The first failing call ends the run.
\<close>

definition generateAll :: "fs \<Rightarrow> MCPServerConfig \<Rightarrow> path \<Rightarrow> error + fs" where
  "generateAll f config outputDir =
     (case ensureDir f outputDir of
        Inl e \<Rightarrow> Inl e
      | Inr f1 \<Rightarrow>
          (case generateMCPServer f1 config outputDir of
             Inl e \<Rightarrow> Inl e
           | Inr f2 \<Rightarrow> generateTSConfig f2 outputDir))"

definition cli :: "fs \<Rightarrow> path \<Rightarrow> path \<Rightarrow> error + fs" where
  "cli f cnlFile outputDir =
     (case parseCNLFile f cnlFile of
        Inl e \<Rightarrow> Inl e
      | Inr config \<Rightarrow> generateAll f config outputDir)"

subsection \<open>Where a piece of text sits in a file\<close>

text \<open>
  The generator trims the text of a template before it writes it. These predicates say
  that a piece \<open>x\<close> occurs in \<open>s\<close> with visible text after it, or on both sides of it,
  so that trimming leaves it in place.
\<close>

definition nonblank :: "string \<Rightarrow> bool" where
  "nonblank s = (\<exists>c \<in> set s. \<not> is_space c)"

definition follows_text :: "string \<Rightarrow> string \<Rightarrow> bool" where
  "follows_text x s = (\<exists>ps ss. s = ps @ x @ ss \<and> nonblank ss)"

definition inside_text :: "string \<Rightarrow> string \<Rightarrow> bool" where
  "inside_text x s = (\<exists>ps ss. s = ps @ x @ ss \<and> nonblank ps \<and> nonblank ss)"

subsection \<open>The list lines of the grammar\<close>





section \<open>Properties\<close>

subsection \<open>Facts about the matcher\<close>


lemma re_match_lit_infix: "re_match (Lit l # k) s = Some m \<Longrightarrow> sublist l s"
proof (induction s)
  case Nil
  then show ?case by (auto split: option.splits if_splits)
next
  case (Cons x xs)
  show ?case
  proof (cases "bt (Lit l # k) (x # xs) init_mstate")
    case None
    with Cons have "sublist l xs" by simp
    then show ?thesis by (rule sublist_Cons_right[THEN iffD2, OF disjI2])
  next
    case (Some r)
    then have "prefix l (x # xs)" by (simp split: if_splits)
    then show ?thesis by (rule prefix_imp_sublist)
  qed
qed


subsection \<open>Facts about the emitted text\<close>

lemma dropWhile_keeps:
  "x \<noteq> [] \<Longrightarrow> \<not> P (hd x) \<Longrightarrow> \<exists>ps'. dropWhile P (ps @ x @ ss) = ps' @ x @ ss"
proof (induction ps)
  case Nil
  then have "dropWhile P (x @ ss) = x @ ss" by (cases x) auto
  then show ?case by (intro exI [of _ "[]"]) simp
next
  case (Cons a ps)
  show ?case
  proof (cases "P a")
    case True
    with Cons show ?thesis by simp
  next
    case False
    then show ?thesis by (intro exI [of _ "a # ps"]) simp
  qed
qed

lemma trim_sublist:
  assumes "sublist x s" and "x \<noteq> []" and "\<not> is_space (hd x)" and "\<not> is_space (last x)"
  shows "sublist x (trim s)"
proof -
  from assms(1) obtain ps ss where s: "s = ps @ x @ ss" by (auto simp: sublist_def)
  from dropWhile_keeps [of x is_space ps ss] assms(2,3) obtain ps' where
    1: "dropWhile is_space (ps @ x @ ss) = ps' @ x @ ss" by blast
  have "rev x \<noteq> []" "\<not> is_space (hd (rev x))"
    using assms(2,4) by (simp_all add: hd_rev)
  from dropWhile_keeps [of "rev x" is_space "rev ss" "rev ps'"] this obtain qs where
    2: "dropWhile is_space (rev ss @ rev x @ rev ps') = qs @ rev x @ rev ps'" by blast
  have "trim s = ps' @ x @ rev qs"
    by (simp add: trim_def s 1 2)
  then show ?thesis by simp
qed

lemma sublist_skip: "sublist x b \<Longrightarrow> sublist x (a @ b)"
  by (simp add: sublist_append)

lemma sublist_trans: "sublist x y \<Longrightarrow> sublist y z \<Longrightarrow> sublist x z"
  by (rule sublist_order.order_trans)

lemma stdio_line: \<open>sublist ''new StdioServerTransport()'' (trim (serverCode config))\<close>
proof (rule trim_sublist)
  have \<open>sublist ''new StdioServerTransport()'' (''    const transport = '' @ ''new StdioServerTransport()'' @ '';\<newline>'')\<close>
    by (rule sublist_appendI)
  then have 1: \<open>sublist ''new StdioServerTransport()'' ''    const transport = new StdioServerTransport();\<newline>''\<close>
    by simp
  have 2: \<open>sublist ''    const transport = new StdioServerTransport();\<newline>'' (serverCode config)\<close>
    unfolding serverCode_def
    by (rule sublist_append_rightI | rule sublist_skip)+
  from 1 2 show \<open>sublist ''new StdioServerTransport()'' (serverCode config)\<close>
    by (rule sublist_trans)
qed (simp_all add: is_space_def)

lemma serverCode_transport: "serverCode (config\<lparr>c_transport := t\<rparr>) = serverCode config"
  by (simp add: serverCode_def)

lemma packageJson_transport: "packageJson (config\<lparr>c_transport := t\<rparr>) = packageJson config"
  by (simp add: packageJson_def)

lemma generateServerTypeScript_transport:
  "generateServerTypeScript f (config\<lparr>c_transport := t\<rparr>) outputDir =
   generateServerTypeScript f config outputDir"
  by (simp add: generateServerTypeScript_def serverCode_transport Let_def cong: sum.case_cong)

lemma generateToolImplementations_transport:
  "generateToolImplementations f (config\<lparr>c_transport := t\<rparr>) outputDir =
   generateToolImplementations f config outputDir"
  by (simp add: generateToolImplementations_def Let_def cong: sum.case_cong)

lemma generateMCPServer_transport:
  "generateMCPServer f (config\<lparr>c_transport := t\<rparr>) outputDir = generateMCPServer f config outputDir"
  by (simp add: generateMCPServer_def generatePackageJson_def packageJson_transport
      generateServerTypeScript_transport generateToolImplementations_transport
      cong: sum.case_cong)

lemma nonblank_left: "nonblank a \<Longrightarrow> nonblank (a @ b)"
  by (auto simp: nonblank_def)

lemma nonblank_right: "nonblank b \<Longrightarrow> nonblank (a @ b)"
  by (auto simp: nonblank_def)

lemma follows_here: "nonblank b \<Longrightarrow> follows_text x (x @ b)"
  unfolding follows_text_def by (intro exI [of _ "[]"] exI [of _ b]) simp

lemma follows_skip: "follows_text x b \<Longrightarrow> follows_text x (a @ b)"
proof -
  assume "follows_text x b"
  then obtain ps ss where "b = ps @ x @ ss" "nonblank ss"
    by (auto simp: follows_text_def)
  then have "a @ b = (a @ ps) @ x @ ss \<and> nonblank ss" by simp
  then show ?thesis unfolding follows_text_def by blast
qed

lemma follows_sub: "sublist x y \<Longrightarrow> follows_text y s \<Longrightarrow> follows_text x s"
proof -
  assume "sublist x y" "follows_text y s"
  then obtain p q ps ss where "y = p @ x @ q" "s = ps @ y @ ss" "nonblank ss"
    by (auto simp: follows_text_def sublist_def)
  then have "s = (ps @ p) @ x @ (q @ ss) \<and> nonblank (q @ ss)"
    by (simp add: nonblank_right)
  then show ?thesis unfolding follows_text_def by blast
qed

lemma inside_first: "nonblank a \<Longrightarrow> follows_text x b \<Longrightarrow> inside_text x (a @ b)"
proof -
  assume a: "nonblank a" and "follows_text x b"
  then obtain ps ss where "b = ps @ x @ ss" "nonblank ss"
    by (auto simp: follows_text_def)
  with a have "a @ b = (a @ ps) @ x @ ss \<and> nonblank (a @ ps) \<and> nonblank ss"
    by (simp add: nonblank_left)
  then show ?thesis unfolding inside_text_def by blast
qed

lemma inside_skip: "inside_text x b \<Longrightarrow> inside_text x (a @ b)"
proof -
  assume "inside_text x b"
  then obtain ps ss where "b = ps @ x @ ss" "nonblank ps" "nonblank ss"
    by (auto simp: inside_text_def)
  then have "a @ b = (a @ ps) @ x @ ss \<and> nonblank (a @ ps) \<and> nonblank ss"
    by (simp add: nonblank_right)
  then show ?thesis unfolding inside_text_def by blast
qed

lemma trim_inside: "inside_text x s \<Longrightarrow> sublist x (trim s)"
proof -
  assume "inside_text x s"
  then obtain ps ss where s: "s = ps @ x @ ss" and "nonblank ps" "nonblank ss"
    by (auto simp: inside_text_def)
  then obtain a b where a: "a \<in> set ps" "\<not> is_space a" and b: "b \<in> set (rev ss)" "\<not> is_space b"
    by (auto simp: nonblank_def)
  have 1: "dropWhile is_space (ps @ x @ ss) = dropWhile is_space ps @ x @ ss"
    using a by (rule dropWhile_append1)
  have 2: "dropWhile is_space (rev ss @ rev x @ rev (dropWhile is_space ps)) =
        dropWhile is_space (rev ss) @ rev x @ rev (dropWhile is_space ps)"
    using b by (rule dropWhile_append1)
  have "trim s = dropWhile is_space ps @ x @ rev (dropWhile is_space (rev ss))"
    by (simp add: trim_def s 1 2)
  then show ?thesis by simp
qed

lemma sublist_join: "x \<in> set xs \<Longrightarrow> sublist x (join sep xs)"
proof (induction sep xs rule: join.induct)
  case (3 sep a b ys)
  show ?case
  proof (cases "x = a")
    case True
    then show ?thesis by simp
  next
    case False
    with 3 have "sublist x (join sep (b # ys))" by simp
    then show ?thesis by (simp add: sublist_append)
  qed
qed simp_all

lemma stub_has_placeholders:
  assumes "ret \<in> set (t_returns tool)"
  shows "sublist (placeholderLine ret) (trim (toolCode tool))"
proof (rule trim_inside)
  have f: "follows_text (join '',\<newline>'' (map placeholderLine (t_returns tool))) b
      \<Longrightarrow> follows_text (placeholderLine ret) b" for b
    using assms by (auto intro: follows_sub [OF sublist_join, of _ "map placeholderLine (t_returns tool)"])
  show "inside_text (placeholderLine ret) (toolCode tool)"
    unfolding toolCode_def
    apply (rule inside_skip)
    apply (rule inside_first)
     apply (simp add: nonblank_def is_space_def)
    apply (rule f)
    apply (rule follows_here [where x = "join '',\<newline>'' (map placeholderLine (t_returns tool))"] | rule follows_skip)+
    apply (rule nonblank_right)
    apply (rule nonblank_left)
    apply (simp add: nonblank_def is_space_def)
    done
qed

text \<open>
  Claim C10. No generated artifact depends on the transport field of the model: two
  models that differ only in \<open>c_transport\<close> give the same run of the generator on every
  file system, the same manifest, the same entry point and the same stubs; and the
  entry point of every model creates a \<^verbatim>\<open>StdioServerTransport\<close>.
\<close>

theorem transport_independence: 
  \<open>generateAll f (config\<lparr>c_transport := t\<rparr>) outputDir = generateAll f config outputDir
   \<and> packageJson (config\<lparr>c_transport := t\<rparr>) = packageJson config
   \<and> serverCode (config\<lparr>c_transport := t\<rparr>) = serverCode config
   \<and> map toolCode (c_tools (config\<lparr>c_transport := t\<rparr>)) = map toolCode (c_tools config)
   \<and> sublist ''new StdioServerTransport()'' (trim (serverCode config))\<close>
  by (simp add: generateAll_def generateMCPServer_transport packageJson_transport
      serverCode_transport stdio_line
      cong: sum.case_cong)

subsection \<open>The placeholder values of a stub\<close>

text \<open>
  Claim C2, as amended. The placeholder of a return field depends on its kind and, for
  the kind \<^verbatim>\<open>string\<close>, on its name: it is \<^verbatim>\<open>"placeholder_<name>"\<close> for
  \<^verbatim>\<open>string\<close>, \<^verbatim>\<open>0\<close> for \<^verbatim>\<open>number\<close>, \<^verbatim>\<open>false\<close> for \<^verbatim>\<open>boolean\<close>,
  \<^verbatim>\<open>[]\<close> for \<^verbatim>\<open>array\<close> and \<^verbatim>\<open>null\<close> for every other kind, the word
  \<^verbatim>\<open>list\<close> included. The line that carries it is part of the stub that is written.
\<close>

theorem placeholder_by_kind_and_name:
  \<open>placeholderLine ret =
     ''      '' @ r_name ret @ '': '' @
       (if r_type ret = ''string'' then ''"placeholder_'' @ r_name ret @ ''"''
        else if r_type ret = ''number'' then ''0''
        else if r_type ret = ''boolean'' then ''false''
        else if r_type ret = ''array'' then ''[]''
        else ''null'')
   \<and> (ret \<in> set (t_returns tool) \<longrightarrow> sublist (placeholderLine ret) (trim (toolCode tool)))\<close>
proof (intro conjI impI)
  show \<open>placeholderLine ret =
     ''      '' @ r_name ret @ '': '' @
       (if r_type ret = ''string'' then ''"placeholder_'' @ r_name ret @ ''"''
        else if r_type ret = ''number'' then ''0''
        else if r_type ret = ''boolean'' then ''false''
        else if r_type ret = ''array'' then ''[]''
        else ''null'')\<close>
    by (simp add: placeholderLine_def)
next
  assume "ret \<in> set (t_returns tool)"
  then show "sublist (placeholderLine ret) (trim (toolCode tool))"
    by (rule stub_has_placeholders)
qed

theorem placeholder_by_kind_and_name_witness:
  \<open>placeholderLine \<lparr>r_name = ''response'', r_type = ''string'', r_description = ''Echoed''\<rparr> =
     ''      response: "placeholder_response"''
   \<and> sublist ''      response: "placeholder_response"''
        (trim (toolCode \<lparr>t_name = ''echo_tool'', t_description = ''Echo'', t_parameters = [],
           t_returns = [\<lparr>r_name = ''response'', r_type = ''string'', r_description = ''Echoed''\<rparr>],
           t_implementationPattern = ''echo input as output''\<rparr>))\<close>
proof -
  let ?ret = "\<lparr>r_name = ''response'', r_type = ''string'', r_description = ''Echoed''\<rparr>"
  let ?tool = "\<lparr>t_name = ''echo_tool'', t_description = ''Echo'', t_parameters = [],
           t_returns = [?ret], t_implementationPattern = ''echo input as output''\<rparr>"
  have e: \<open>placeholderLine ?ret = ''      response: "placeholder_response"''\<close>
    using placeholder_by_kind_and_name [of ?ret ?tool, THEN conjunct1] by simp
  have m: "?ret \<in> set (t_returns ?tool)"
    by simp
  have "sublist (placeholderLine ?ret) (trim (toolCode ?tool))"
    using placeholder_by_kind_and_name [of ?ret ?tool, THEN conjunct2] m by (rule mp)
  then have \<open>sublist ''      response: "placeholder_response"'' (trim (toolCode ?tool))\<close>
    unfolding e .
  with e show ?thesis by (rule conjI)
qed

text \<open>
  The claim as stated fails: a \<^verbatim>\<open>string\<close> field does not get the empty string, two
  \<^verbatim>\<open>string\<close> fields get different placeholders, and a \<^verbatim>\<open>list\<close> field gets
  \<^verbatim>\<open>null\<close>, not the empty list.
\<close>

theorem placeholder_default_counterexample:
  \<open>placeholderLine \<lparr>r_name = ''response'', r_type = ''string'', r_description = ''Echoed''\<rparr> =
     ''      response: "placeholder_response"''
   \<and> placeholderLine \<lparr>r_name = ''response'', r_type = ''string'', r_description = ''Echoed''\<rparr> \<noteq>
     ''      response: ""''
   \<and> placeholderLine \<lparr>r_name = ''answer'', r_type = ''string'', r_description = ''Echoed''\<rparr> =
     ''      answer: "placeholder_answer"''
   \<and> placeholderLine \<lparr>r_name = ''items'', r_type = ''list'', r_description = ''All items''\<rparr> =
     ''      items: null''
   \<and> placeholderLine \<lparr>r_name = ''items'', r_type = ''list'', r_description = ''All items''\<rparr> \<noteq>
     ''      items: []''\<close>
  by (simp add: placeholderLine_def)

subsection \<open>Where the pieces of the entry point sit\<close>

lemma server_has_schemas:
  "inside_text (join '',\<newline>'' (map toolSchema (c_tools config))) (serverCode config)"
  unfolding serverCode_def
  apply (rule inside_skip)
  apply (rule inside_first)
   apply (simp add: nonblank_def is_space_def)
  apply (rule follows_here [where x = "join '',\<newline>'' (map toolSchema (c_tools config))"] | rule follows_skip)+
  apply (rule nonblank_right)+
  apply (simp add: nonblank_def is_space_def)
  done



lemma required_here:
  \<open>sublist (''required: ['' @ J @ '']'') (''              required: ['' @ J @ '']\<newline>'' @ rest)\<close>
proof -
  have \<open>''              required: ['' @ J @ '']\<newline>'' @ rest =
      ''              '' @ (''required: ['' @ J @ '']'') @ (''\<newline>'' @ rest)\<close>
    by simp
  then show ?thesis
    by (simp only: sublist_appendI)
qed

lemma schema_has_required:
  \<open>sublist (''required: ['' @ join '', '' (map quoted_name (filter p_required (t_parameters tool))) @ '']'')
     (toolSchema tool)\<close>
  unfolding toolSchema_def
  by (rule required_here | rule sublist_skip)+

lemma server_has_required:
  assumes "tool \<in> set (c_tools config)"
  shows \<open>sublist (''required: ['' @ join '', '' (map quoted_name (filter p_required (t_parameters tool))) @ '']'')
     (trim (serverCode config))\<close>
proof -
  have "sublist (toolSchema tool) (join '',\<newline>'' (map toolSchema (c_tools config)))"
    using assms by (intro sublist_join) simp
  with schema_has_required
  have \<open>sublist (''required: ['' @ join '', '' (map quoted_name (filter p_required (t_parameters tool))) @ '']'')
     (join '',\<newline>'' (map toolSchema (c_tools config)))\<close>
    by (rule sublist_trans)
  moreover have "sublist (join '',\<newline>'' (map toolSchema (c_tools config))) (trim (serverCode config))"
    using server_has_schemas by (rule trim_inside)
  ultimately show ?thesis
    by (rule sublist_trans)
qed

subsection \<open>The required names of a schema\<close>

text \<open>
  Claim C5, as amended. The array \<^verbatim>\<open>required\<close> of a tool's schema lists, in order,
  the quoted names of the parameters whose flag \<open>required\<close> is true: it contains the
  name of every such parameter, and every name in it is the name of such a parameter.
  The name of an optional parameter is therefore absent whenever the parameter names
  of the tool are distinct. The array is part of the entry point that is written.
\<close>

theorem required_array_lists_required_names:
  \<open>(\<forall>p \<in> set (t_parameters tool). p_required p \<longrightarrow>
       quoted_name p \<in> set (map quoted_name (filter p_required (t_parameters tool))))
   \<and> (\<forall>q \<in> set (map quoted_name (filter p_required (t_parameters tool))).
         \<exists>p \<in> set (t_parameters tool). p_required p \<and> quoted_name p = q)
   \<and> (distinct (map p_name (t_parameters tool)) \<longrightarrow>
         (\<forall>p \<in> set (t_parameters tool). \<not> p_required p \<longrightarrow>
            quoted_name p \<notin> set (map quoted_name (filter p_required (t_parameters tool)))))
   \<and> (tool \<in> set (c_tools config) \<longrightarrow>
         sublist (''required: ['' @
                  join '', '' (map quoted_name (filter p_required (t_parameters tool))) @ '']'')
           (trim (serverCode config)))\<close>
proof (intro conjI impI ballI)
  fix p
  assume "p \<in> set (t_parameters tool)" "p_required p"
  then show "quoted_name p \<in> set (map quoted_name (filter p_required (t_parameters tool)))"
    by simp
next
  fix q
  assume "q \<in> set (map quoted_name (filter p_required (t_parameters tool)))"
  then show "\<exists>p \<in> set (t_parameters tool). p_required p \<and> quoted_name p = q"
    by auto
next
  fix p
  assume d: "distinct (map p_name (t_parameters tool))"
    and p: "p \<in> set (t_parameters tool)" "\<not> p_required p"
  show "quoted_name p \<notin> set (map quoted_name (filter p_required (t_parameters tool)))"
  proof
    assume "quoted_name p \<in> set (map quoted_name (filter p_required (t_parameters tool)))"
    then obtain p' where p': "p' \<in> set (t_parameters tool)" "p_required p'"
      and "quoted_name p' = quoted_name p"
      by auto
    then have "p_name p' = p_name p"
      by (simp add: quoted_name_def)
    with d p(1) p'(1) have "p' = p"
      by (meson distinct_map inj_onD)
    with p(2) p'(2) show False by simp
  qed
next
  assume "tool \<in> set (c_tools config)"
  then show \<open>sublist (''required: ['' @
                  join '', '' (map quoted_name (filter p_required (t_parameters tool))) @ '']'')
           (trim (serverCode config))\<close>
    by (rule server_has_required)
qed

theorem required_array_lists_required_names_witness:
  \<open>sublist ''required: ["message"]''
     (trim (serverCode
        \<lparr>c_name = ''echo-server'', c_version = ''1.0.0'', c_transport = ''stdio'',
         c_capabilities = [''tools'', ''resources''],
         c_tools =
           [\<lparr>t_name = ''echo_tool'', t_description = ''Echo'',
             t_parameters =
               [\<lparr>p_name = ''message'', p_type = ''string'', p_required = True,
                  p_description = ''Text''\<rparr>,
                \<lparr>p_name = ''count'', p_type = ''number'', p_required = False,
                  p_description = ''Times''\<rparr>],
             t_returns = [], t_implementationPattern = ''echo input as output''\<rparr>]\<rparr>))\<close>
proof -
  let ?tool = "\<lparr>t_name = ''echo_tool'', t_description = ''Echo'',
             t_parameters =
               [\<lparr>p_name = ''message'', p_type = ''string'', p_required = True,
                  p_description = ''Text''\<rparr>,
                \<lparr>p_name = ''count'', p_type = ''number'', p_required = False,
                  p_description = ''Times''\<rparr>],
             t_returns = [], t_implementationPattern = ''echo input as output''\<rparr>"
  let ?config = "\<lparr>c_name = ''echo-server'', c_version = ''1.0.0'', c_transport = ''stdio'',
         c_capabilities = [''tools'', ''resources''], c_tools = [?tool]\<rparr>"
  have m: "?tool \<in> set (c_tools ?config)"
    by simp
  have "sublist (''required: ['' @
                  join '', '' (map quoted_name (filter p_required (t_parameters ?tool))) @ '']'')
           (trim (serverCode ?config))"
    using required_array_lists_required_names [of ?tool ?config] m by blast
  then show ?thesis
    by (simp add: quoted_name_def)
qed

text \<open>
  The claim as stated fails when an optional parameter shares its name with a required
  one: the parser accepts the two lines, and the array then holds the name of a
  parameter whose flag is false.
\<close>

theorem required_array_counterexample:
  \<open>parseParameters ''PARAMETERS: - x: string (required) "a" - x: string (optional) "b" RETURNS:'' =
     [\<lparr>p_name = ''x'', p_type = ''string'', p_required = True, p_description = ''a''\<rparr>,
      \<lparr>p_name = ''x'', p_type = ''string'', p_required = False, p_description = ''b''\<rparr>]
   \<and> map quoted_name (filter p_required
        [\<lparr>p_name = ''x'', p_type = ''string'', p_required = True, p_description = ''a''\<rparr>,
         \<lparr>p_name = ''x'', p_type = ''string'', p_required = False, p_description = ''b''\<rparr>]) =
       [''"x"'']
   \<and> \<not> p_required \<lparr>p_name = ''x'', p_type = ''string'', p_required = False, p_description = ''b''\<rparr>
   \<and> quoted_name \<lparr>p_name = ''x'', p_type = ''string'', p_required = False, p_description = ''b''\<rparr> =
       ''"x"''\<close>
proof (intro conjI)
  show \<open>parseParameters ''PARAMETERS: - x: string (required) "a" - x: string (optional) "b" RETURNS:'' =
     [\<lparr>p_name = ''x'', p_type = ''string'', p_required = True, p_description = ''a''\<rparr>,
      \<lparr>p_name = ''x'', p_type = ''string'', p_required = False, p_description = ''b''\<rparr>]\<close>
    by code_simp
qed (simp_all add: quoted_name_def)

subsection \<open>What the parser does when a label is absent\<close>

lemma re_match_absent: "\<not> sublist l s \<Longrightarrow> re_match (Lit l # k) s = None"
  using re_match_lit_infix [of l k s] by (cases "re_match (Lit l # k) s") auto

lemma quoted_absent:
  "\<not> sublist (label @ '':'') s \<Longrightarrow> group1_or (re_match (QUOTED_RE label) s) dflt = dflt"
  by (simp add: QUOTED_RE_def re_match_absent group1_or_def del: re_match.simps)


lemma config_absent:
  "\<not> sublist ''MCP_SERVER_CONFIGURATION:'' content \<Longrightarrow> configContent content = []"
  by (simp add: configContent_def CONFIG_RE_def re_match_absent group1_or_def del: re_match.simps)

lemma matchAll_absent: "\<not> sublist l s \<Longrightarrow> matchAll (Lit l # k) s = []"
  by (subst matchAll.simps) (simp add: re_match_absent del: re_match.simps)






subsection \<open>Matching a list line and a section\<close>




text \<open>The state after a group \<open>i\<close> has captured the text \<open>w\<close>.\<close>

lemma captured:
  "close_group i (eat w (open_group i st)) =
     st\<lparr>consumed := rev w @ consumed st,
        opened := (i, length (consumed st)) # opened st,
        groups := (i, w) # groups st\<rparr>"
  by (simp add: close_group_def eat_def open_group_def)


























subsection \<open>The kind word of a list line\<close>




subsection \<open>Defaults of the server metadata\<close>



subsection \<open>Texts without the root blocks\<close>

text \<open>
  Claim C3, as amended. Parsing never fails with a malformed-specification error: for
  every file that can be read the parser returns a model, and its only failures are
  those of reading the file. A text without the label \<^verbatim>\<open>MCP_SERVER_CONFIGURATION:\<close>
  gives the three default values, and a text without the word
  \<^verbatim>\<open>TOOL_SPECIFICATION\<close> gives the empty list of tools.
\<close>

theorem absent_blocks_give_defaults:
  "(lookup f filePath = Some (File content) \<longrightarrow>
      parseCNLFile f filePath = Inr (parseContent content))
   \<and> (parseCNLFile f filePath = Inl e \<longrightarrow> readFileSync f filePath = Inl e)
   \<and> (\<not> sublist ''MCP_SERVER_CONFIGURATION:'' content \<longrightarrow>
        c_name (parseContent content) = ''generated-mcp-server''
      \<and> c_version (parseContent content) = ''0.1.0''
      \<and> c_transport (parseContent content) = ''stdio'')
   \<and> (\<not> sublist ''TOOL_SPECIFICATION'' content \<longrightarrow> c_tools (parseContent content) = [])"
proof (intro conjI impI)
  assume "lookup f filePath = Some (File content)"
  then show "parseCNLFile f filePath = Inr (parseContent content)"
    by (simp add: parseCNLFile_def readFileSync_def)
next
  assume "parseCNLFile f filePath = Inl e"
  then show "readFileSync f filePath = Inl e"
    by (simp add: parseCNLFile_def split: sum.splits)
next
  assume a: "\<not> sublist ''MCP_SERVER_CONFIGURATION:'' content"
  have q: "group1_or (re_match (QUOTED_RE label) []) dflt = dflt" for label dflt
    by (rule quoted_absent) simp
  show "c_name (parseContent content) = ''generated-mcp-server''"
    "c_version (parseContent content) = ''0.1.0''"
    "c_transport (parseContent content) = ''stdio''"
    by (simp_all add: parseContent_def Let_def config_absent [OF a] q del: re_match.simps)
next
  assume "\<not> sublist ''TOOL_SPECIFICATION'' content"
  then have "matchAll TOOL_RE content = []"
    unfolding TOOL_RE_def by (rule matchAll_absent)
  then show "c_tools (parseContent content) = []"
    by (simp add: parseContent_def Let_def del: re_match.simps)
qed

theorem absent_blocks_give_defaults_witness:
  "parseCNLFile (Map.empty([''notes.txt''] \<mapsto> File ''no blocks here'')) [''notes.txt''] =
     Inr (parseContent ''no blocks here'')
   \<and> c_name (parseContent ''no blocks here'') = ''generated-mcp-server''
   \<and> c_version (parseContent ''no blocks here'') = ''0.1.0''
   \<and> c_transport (parseContent ''no blocks here'') = ''stdio''
   \<and> c_tools (parseContent ''no blocks here'') = []"
proof -
  let ?f = "Map.empty([''notes.txt''] \<mapsto> File ''no blocks here'')"
  have l: "lookup ?f [''notes.txt''] = Some (File ''no blocks here'')"
    by (simp add: lookup_def)
  have c: "\<not> sublist ''MCP_SERVER_CONFIGURATION:'' ''no blocks here''"
    by (simp add: sublist_Cons_right)
  have t: "\<not> sublist ''TOOL_SPECIFICATION'' ''no blocks here''"
    by (simp add: sublist_Cons_right)
  from absent_blocks_give_defaults [of ?f "[''notes.txt'']" "''no blocks here''"] l c t
  show ?thesis
    by blast
qed

text \<open>
  The claim as stated fails: a text with neither block, and a text whose configuration
  block has an unquoted name, are both parsed into a model.
\<close>

theorem malformed_specification_counterexample:
  \<open>parseCNLFile (Map.empty([''notes.txt''] \<mapsto> File ''no blocks here'')) [''notes.txt''] =
     Inr \<lparr>c_name = ''generated-mcp-server'', c_version = ''0.1.0'', c_transport = ''stdio'',
          c_capabilities = [''tools'', ''resources''], c_tools = []\<rparr>
   \<and> parseCNLFile (Map.empty([''bad.cnl''] \<mapsto> File ''MCP_SERVER_CONFIGURATION: NAME: echo''))
       [''bad.cnl''] =
     Inr \<lparr>c_name = ''generated-mcp-server'', c_version = ''0.1.0'', c_transport = ''stdio'',
          c_capabilities = [''tools'', ''resources''], c_tools = []\<rparr>\<close>
proof -
  have 1: "parseContent ''no blocks here'' =
      \<lparr>c_name = ''generated-mcp-server'', c_version = ''0.1.0'', c_transport = ''stdio'',
          c_capabilities = [''tools'', ''resources''], c_tools = []\<rparr>"
    by code_simp
  have 2: "parseContent ''MCP_SERVER_CONFIGURATION: NAME: echo'' =
      \<lparr>c_name = ''generated-mcp-server'', c_version = ''0.1.0'', c_transport = ''stdio'',
          c_capabilities = [''tools'', ''resources''], c_tools = []\<rparr>"
    by code_simp
  show ?thesis
    by (simp add: parseCNLFile_def readFileSync_def lookup_def 1 2)
qed

subsection \<open>Extracting a quoted field\<close>




subsection \<open>The four sub-sections of a tool block\<close>




subsection \<open>The order of the tools\<close>






end
